theory Spec2Isabelle
  imports Main "HOL-Library.AList"
begin

section \<open>Python values of \<^verbatim>\<open>liveData/__init__.py\<close>\<close>

text \<open>
  The dictionaries the server builds hold strings, numbers and nested dictionaries.
  Numbers (prices, sizes, the epoch time) are never computed with by the module, so
  their type is a parameter \<open>'n\<close>; a \<open>datetime\<close> is a value of a second parameter
  \<open>'d\<close> and \<^verbatim>\<open>datetime.timestamp\<close> is a function \<open>'d \<Rightarrow> 'n\<close> handed to the model.
  A Python \<^verbatim>\<open>dict\<close> keeps insertion order and assigning to a present key replaces the
  value in place: an association list under \<^const>\<open>AList.update\<close>.
\<close>

datatype 'n json = JNum 'n | JStr string | JObj "(string \<times> 'n json) list"

type_synonym 'n pydict = "(string \<times> 'n json) list"

datatype pyexn = OSError string | NameError string | LibraryError string

datatype retval = PyNone | ErrorObject pyexn

datatype 'a outcome = Returned 'a | Raised pyexn | NeverReturns

subsection \<open>Names the module can call\<close>

text \<open>
  The names bound at module level by the import statements (lines 21 to 45) and the
  class statement (line 48), in source order. Python looks a global name up here and
  then among the builtins; the builtins hold the class \<^verbatim>\<open>Exception\<close> but no
  \<^verbatim>\<open>exception\<close>. Calling a name found in neither raises \<^verbatim>\<open>NameError\<close>.
\<close>

definition module_names :: "string list" where
  "module_names =
     [''socket'', ''AF_INET'', ''SOCK_STREAM'', ''ArgumentParser'', ''serialize'',
      ''sleep'', ''datetime'', ''Thread'', ''cryptogram'', ''SQL'', ''CryptoStream'',
      ''StocksStream'', ''basicConfig'', ''getLogger'', ''INFO'', ''DEBUG'',
      ''information'', ''debugging'', ''liveDataServer'']"

definition builtin_names :: "string list" where
  "builtin_names = [''str'', ''bytes'', ''int'', ''Exception'']"

definition call_global :: "string \<Rightarrow> pyexn option" where
  "call_global name =
     (if name \<in> set module_names \<or> name \<in> set builtin_names then None
      else Some (NameError name))"

subsection \<open>The quote event and the server object\<close>

record ('d, 'n) quote =
  symbol :: string
  timestamp :: 'd
  ask_price :: 'n
  ask_size :: 'n
  bid_price :: 'n
  bid_size :: 'n

record crypto_stream =
  api_key :: string
  secret_key :: string
  quote_subscriptions :: "string list"

record 'n liveDataServer =
  keyfile :: string
  database :: string
  host :: string
  port :: int
  data :: "'n pydict"
  credentials :: "string \<times> string"
  client :: crypto_stream

section \<open>The stream data handler\<close>

subsection \<open>Re-writing the data packet (lines 111 to 122)\<close>

definition quote_entry :: "('d \<Rightarrow> 'n) \<Rightarrow> ('d, 'n) quote \<Rightarrow> 'n json" where
  "quote_entry ts d =
     JObj [(''name'', JStr (symbol d)),
           (''time'', JNum (ts (timestamp d))),
           (''ask price'', JNum (ask_price d)),
           (''ask size'', JNum (ask_size d)),
           (''bid price'', JNum (bid_price d)),
           (''bid size'', JNum (bid_size d))]"

definition rewrite_packet ::
  "('d \<Rightarrow> 'n) \<Rightarrow> 'n liveDataServer \<Rightarrow> ('d, 'n) quote \<Rightarrow> 'n liveDataServer" where
  "rewrite_packet ts self d =
     self\<lparr>data := AList.update ''Live Market Data''
                      (JObj [(symbol d, quote_entry ts d)]) (data self)\<rparr>"

subsection \<open>The socket (standard library)\<close>

text \<open>
  \<^verbatim>\<open>socket.close()\<close> marks the object closed; \<^verbatim>\<open>socket.__exit__\<close>, run when the
  \<^verbatim>\<open>with\<close> block is left by any route, calls \<^verbatim>\<open>close()\<close> only when the object is
  not yet marked closed. \<open>closes\<close> counts the calls of \<^verbatim>\<open>close()\<close>.
\<close>

record socket_state =
  connected :: bool
  closed :: bool
  closes :: nat

definition socket_new :: socket_state where
  "socket_new = \<lparr>connected = False, closed = False, closes = 0\<rparr>"

definition socket_close :: "socket_state \<Rightarrow> socket_state" where
  "socket_close s = s\<lparr>connected := False, closed := True, closes := closes s + 1\<rparr>"

definition socket_exit :: "socket_state \<Rightarrow> socket_state" where
  "socket_exit s = (if closed s then s else socket_close s)"

subsection \<open>Connecting and uploading (lines 125 to 159)\<close>

text \<open>
  What the peer does is not decided by the program: \<open>connect_raises\<close> and
  \<open>sendall_raises\<close> give the exception each call raises, if any. The effects of one
  invocation are the socket's final state, the dictionaries handed to
  \<^verbatim>\<open>serialize\<close> and \<^verbatim>\<open>sendall\<close>, and the arguments of \<^verbatim>\<open>sleep\<close>. The socket object
  itself is taken as created.
\<close>

record netenv =
  connect_raises :: "pyexn option"
  sendall_raises :: "pyexn option"

record 'n effects =
  sock :: socket_state
  sendall_calls :: "'n pydict list"
  sleeps :: "nat list"

text \<open>Both \<^verbatim>\<open>except\<close> clauses: \<^verbatim>\<open>exception( ... ); return error\<close>.\<close>

definition except_clause :: "pyexn \<Rightarrow> retval outcome" where
  "except_clause error =
     (case call_global ''exception'' of
        Some name_error \<Rightarrow> Raised name_error
      | None \<Rightarrow> Returned (ErrorObject error))"

text \<open>The \<^verbatim>\<open>finally\<close> clause of the upload: \<^verbatim>\<open>server.close(); sleep(1)\<close>.\<close>

definition finally_clause :: "'n effects \<Rightarrow> 'n effects" where
  "finally_clause w = w\<lparr>sock := socket_close (sock w), sleeps := sleeps w @ [1]\<rparr>"

definition with_exit :: "'n effects \<Rightarrow> 'n effects" where
  "with_exit w = w\<lparr>sock := socket_exit (sock w)\<rparr>"

definition send_packet ::
  "netenv \<Rightarrow> 'n liveDataServer \<Rightarrow> 'n liveDataServer \<times> 'n effects \<times> retval outcome" where
  "send_packet env self =
     (let w0 = \<lparr>sock = socket_new, sendall_calls = [], sleeps = []\<rparr> in
      case connect_raises env of
        Some error \<Rightarrow> (self, with_exit w0, except_clause error)
      | None \<Rightarrow>
          (let w1 = w0\<lparr>sock := (sock w0)\<lparr>connected := True\<rparr>,
                       sendall_calls := [data self]\<rparr> in
           case sendall_raises env of
             Some error \<Rightarrow> (self, with_exit (finally_clause w1), except_clause error)
           | None \<Rightarrow> (self, with_exit (finally_clause w1), Returned PyNone)))"

definition streamDataHandler ::
  "('d \<Rightarrow> 'n) \<Rightarrow> netenv \<Rightarrow> 'n liveDataServer \<Rightarrow> ('d, 'n) quote
     \<Rightarrow> 'n liveDataServer \<times> 'n effects \<times> retval outcome" where
  "streamDataHandler ts env self d = send_packet env (rewrite_packet ts self d)"

text \<open>The feed delivering a sequence of events, each with its own network weather.\<close>

fun run_events ::
  "('d \<Rightarrow> 'n) \<Rightarrow> 'n liveDataServer \<Rightarrow> (netenv \<times> ('d, 'n) quote) list \<Rightarrow> 'n liveDataServer" where
  "run_events ts self [] = self"
| "run_events ts self ((env, d) # rest) =
     run_events ts (fst (streamDataHandler ts env self d)) rest"

text \<open>Reading the store: the entries under \<^verbatim>\<open>"Live Market Data"\<close>.\<close>

definition live_market_data :: "'n liveDataServer \<Rightarrow> 'n pydict" where
  "live_market_data self =
     (case map_of (data self) ''Live Market Data'' of
        Some (JObj entries) \<Rightarrow> entries
      | _ \<Rightarrow> [])"

section \<open>The constructor\<close>

text \<open>
  The collaborators outside the repository: the credential database (a table from
  path to key and secret; a path it does not hold makes the query raise), the feed
  client (which may refuse a symbol on subscription) and whether the client's
  \<^verbatim>\<open>run()\<close> ever returns. The constructor's effects are a trace of actions, each
  with the execution context that performs it.
\<close>

record externals =
  credential_rows :: "(string \<times> (string \<times> string)) list"
  rejected_symbols :: "string set"
  run_returns :: bool

datatype exec_context = Foreground | Background string

datatype action =
    QueryCredentials string
  | NewCryptoStream string string
  | SubscribeQuotes string
  | ClientRun
  | ThreadStart string

datatype thread_target = TargetNone | TargetCall action

text \<open>
  \<^verbatim>\<open>str.upper()\<close> on the ASCII letters; every other character is left as it is
  (symbols outside ASCII are not modelled).
\<close>

definition upper_char :: "char \<Rightarrow> char" where
  "upper_char c =
     (case map_of (zip ''abcdefghijklmnopqrstuvwxyz'' ''ABCDEFGHIJKLMNOPQRSTUVWXYZ'') c of
        Some u \<Rightarrow> u
      | None \<Rightarrow> c)"

definition upper :: "string \<Rightarrow> string" where
  "upper s = map upper_char s"

definition queryCredentials :: "externals \<Rightarrow> string \<Rightarrow> pyexn + (string \<times> string)" where
  "queryCredentials ext path =
     (case map_of (credential_rows ext) path of
        None \<Rightarrow> Inl (LibraryError path)
      | Some row \<Rightarrow> Inr row)"

text \<open>Lines 87 to 91: the loop over \<^verbatim>\<open>symbols\<close>.\<close>

fun subscribe_all ::
  "externals \<Rightarrow> string list \<Rightarrow> crypto_stream
     \<Rightarrow> (exec_context \<times> action) list \<times> (pyexn + crypto_stream)" where
  "subscribe_all ext [] c = ([], Inr c)"
| "subscribe_all ext (asset # rest) c =
     (let name = upper asset in
      if name \<in> rejected_symbols ext
      then ([(Foreground, SubscribeQuotes name)], Inl (LibraryError name))
      else (case subscribe_all ext rest
                   (c\<lparr>quote_subscriptions := quote_subscriptions c @ [name]\<rparr>) of
              (tr, r) \<Rightarrow> ((Foreground, SubscribeQuotes name) # tr, r)))"

text \<open>
  \<^verbatim>\<open>Thread(target=t).start()\<close>: the new thread calls \<^verbatim>\<open>t\<close> unless it is
  \<^verbatim>\<open>None\<close>, in which case its body is empty.
\<close>

fun thread_body :: "thread_target \<Rightarrow> action list" where
  "thread_body TargetNone = []"
| "thread_body (TargetCall a) = [a]"

definition start_thread :: "string \<Rightarrow> thread_target \<Rightarrow> (exec_context \<times> action) list" where
  "start_thread name t =
     (Foreground, ThreadStart name) # map (Pair (Background name)) (thread_body t)"

text \<open>
  Lines 60 to 98. In \<^verbatim>\<open>Thread( ..., target=self.client.run() ).start()\<close> the argument
  \<^verbatim>\<open>self.client.run()\<close> is a call: Python evaluates it, in the calling context,
  before \<^verbatim>\<open>Thread\<close> is entered, and the thread's target is what the call returned
  (\<^verbatim>\<open>None\<close>).
\<close>

definition init ::
  "externals \<Rightarrow> string \<Rightarrow> string \<Rightarrow> string list \<Rightarrow> string \<Rightarrow> int
     \<Rightarrow> (exec_context \<times> action) list \<times> 'n liveDataServer outcome" where
  "init ext keyfile' database' symbols host' port' =
     (let path = ''/server/database/admin/admin.db'';
          t0 = [(Foreground, QueryCredentials path)] in
      case queryCredentials ext path of
        Inl e \<Rightarrow> (t0, Raised e)
      | Inr creds \<Rightarrow>
          (let c0 = \<lparr>api_key = fst creds, secret_key = snd creds, quote_subscriptions = []\<rparr>;
               t1 = t0 @ [(Foreground, NewCryptoStream (fst creds) (snd creds))] in
           case subscribe_all ext symbols c0 of
             (tr, Inl e) \<Rightarrow> (t1 @ tr, Raised e)
           | (tr, Inr c1) \<Rightarrow>
               (let t2 = t1 @ tr @ [(Foreground, ClientRun)] in
                if run_returns ext
                then (t2 @ start_thread ''CryptoClient'' TargetNone,
                      Returned \<lparr>keyfile = keyfile', database = database', host = host',
                                port = port', data = [], credentials = creds, client = c1\<rparr>)
                else (t2, NeverReturns))))"

definition queried_paths :: "(exec_context \<times> action) list \<Rightarrow> string list" where
  "queried_paths tr = concat (map (\<lambda>(c, a). case a of QueryCredentials p \<Rightarrow> [p] | _ \<Rightarrow> []) tr)"

definition contexts_of :: "action \<Rightarrow> (exec_context \<times> action) list \<Rightarrow> exec_context list" where
  "contexts_of a tr = map fst (filter (\<lambda>(c, b). b = a) tr)"

section \<open>Concrete events, peers and collaborators\<close>

text \<open>
  Two quotes, a server as the constructor leaves it, a peer that accepts the upload, one
  that refuses the connection, one that drops it during the upload, and collaborators
  whose feed loop runs until the process is stopped.
\<close>

definition btc_quote :: "(int, int) quote" where
  "btc_quote = \<lparr>symbol = ''BTC/USD'', timestamp = 1700000000, ask_price = 50001,
                 ask_size = 1, bid_price = 50000, bid_size = 2\<rparr>"

definition eth_quote :: "(int, int) quote" where
  "eth_quote = \<lparr>symbol = ''ETH/USD'', timestamp = 1700000001, ask_price = 2001,
                 ask_size = 3, bid_price = 2000, bid_size = 4\<rparr>"

definition peer_up :: netenv where
  "peer_up = \<lparr>connect_raises = None, sendall_raises = None\<rparr>"

definition peer_refusing :: netenv where
  "peer_refusing = \<lparr>connect_raises = Some (OSError ''ConnectionRefusedError''), sendall_raises = None\<rparr>"

definition peer_resetting :: netenv where
  "peer_resetting = \<lparr>connect_raises = None, sendall_raises = Some (OSError ''ConnectionResetError'')\<rparr>"

definition server0 :: "int liveDataServer" where
  "server0 = \<lparr>keyfile = ''/server/credentials/admin.key'', database = ''/server/database/admin.db'',
               host = ''127.0.0.1'', port = 65535, data = [],
               credentials = (''key'', ''secret''),
               client = \<lparr>api_key = ''key'', secret_key = ''secret'', quote_subscriptions = [''BTC/USD'']\<rparr>\<rparr>"

definition feed_live :: externals where
  "feed_live = \<lparr>credential_rows = [(''/server/database/admin/admin.db'', (''key'', ''secret''))],
                 rejected_symbols = {}, run_returns = False\<rparr>"

definition new_client :: crypto_stream where
  "new_client = \<lparr>api_key = ''key'', secret_key = ''secret'', quote_subscriptions = []\<rparr>"

section \<open>Properties\<close>

subsection \<open>Name resolution in the handler\<close>

text \<open>
  The logging functions the module imports resolve; \<^verbatim>\<open>exception\<close>, called in both
  \<^verbatim>\<open>except\<close> clauses, was never imported, so either clause ends in a
  \<^verbatim>\<open>NameError\<close> before its \<^verbatim>\<open>return error\<close> is reached.
\<close>

lemma exception_unbound: "call_global ''exception'' = Some (NameError ''exception'')"
  by (simp add: call_global_def module_names_def builtin_names_def)

lemma logging_bound: "call_global ''information'' = None \<and> call_global ''debugging'' = None"
  by (simp add: call_global_def module_names_def builtin_names_def)

lemma except_clause_raises: "except_clause e = Raised (NameError ''exception'')"
  by (simp add: except_clause_def exception_unbound)

subsection \<open>The store\<close>

lemma send_packet_self: "fst (send_packet env self) = self"
  by (simp add: send_packet_def Let_def split: option.splits)

lemma handler_self: "fst (streamDataHandler ts env self d) = rewrite_packet ts self d"
  by (simp add: streamDataHandler_def send_packet_self)

lemma run_events_snoc:
  "run_events ts self (evs @ [(env, d)]) = rewrite_packet ts (run_events ts self evs) d"
  by (induction evs arbitrary: self) (auto simp: handler_self)

lemma live_market_data_rewrite:
  "live_market_data (rewrite_packet ts self d) = [(symbol d, quote_entry ts d)]"
  by (simp add: live_market_data_def rewrite_packet_def update_conv')

lemma live_market_data_snoc:
  "live_market_data (run_events ts self (evs @ [(env, d)])) = [(symbol d, quote_entry ts d)]"
  by (simp add: run_events_snoc live_market_data_rewrite)

text \<open>
  Claim C1, as amended. The claim has the store keep the last quote of every symbol ever
  merged. The handler assigns a fresh one-entry dictionary to \<^verbatim>\<open>"Live Market Data"\<close>
  on every event, so after any non-empty sequence of events, whatever the outcome of
  each upload, a read of the store returns exactly one entry: the last event's quote
  under the last event's symbol. Every other symbol reads as absent.
\<close>

theorem store_keeps_last_event_only:
  "live_market_data (run_events ts self (evs @ [(env, d)])) = [(symbol d, quote_entry ts d)] \<and>
   map_of (live_market_data (run_events ts self (evs @ [(env, d)]))) s =
     (if s = symbol d then Some (quote_entry ts d) else None)"
  by (simp add: live_market_data_snoc)

theorem store_keeps_last_event_only_witness:
  "live_market_data (run_events id server0 [(peer_refusing, btc_quote), (peer_up, eth_quote)]) =
     [(''ETH/USD'', quote_entry id eth_quote)] \<and>
   map_of (live_market_data (run_events id server0 [(peer_refusing, btc_quote), (peer_up, eth_quote)]))
     ''ETH/USD'' = Some (quote_entry id eth_quote)"
  using store_keeps_last_event_only
    [of id server0 "[(peer_refusing, btc_quote)]" peer_up eth_quote "''ETH/USD''"]
  by (simp add: eth_quote_def)

text \<open>
  Claim C1 as stated fails: after a quote for BTC/USD and then one for ETH/USD the
  store holds one entry, not two, and BTC/USD is gone.
\<close>

theorem earlier_symbol_dropped:
  "map_of (live_market_data (run_events id server0 [(peer_up, btc_quote), (peer_up, eth_quote)]))
     ''BTC/USD'' = None \<and>
   length (live_market_data (run_events id server0 [(peer_up, btc_quote), (peer_up, eth_quote)])) = 1"
  using live_market_data_snoc [of id server0 "[(peer_up, btc_quote)]" peer_up eth_quote]
  by (simp add: eth_quote_def)

subsection \<open>The constructor and the feed loop\<close>

lemma subscribe_all_trace:
  "set (fst (subscribe_all ext symbols c)) \<subseteq> (\<lambda>s. (Foreground, SubscribeQuotes (upper s))) ` set symbols"
proof (induction symbols arbitrary: c)
  case Nil
  show ?case by simp
next
  case (Cons asset rest)
  show ?case
    using Cons.IH [of "c\<lparr>quote_subscriptions := quote_subscriptions c @ [upper asset]\<rparr>"]
    by (auto simp: Let_def split: prod.splits)
qed

lemma subscribe_all_result:
  "snd (subscribe_all ext symbols c) =
     (case find (\<lambda>s. upper s \<in> rejected_symbols ext) symbols of
        None \<Rightarrow> Inr (c\<lparr>quote_subscriptions := quote_subscriptions c @ map upper symbols\<rparr>)
      | Some s \<Rightarrow> Inl (LibraryError (upper s)))"
proof (induction symbols arbitrary: c)
  case Nil
  show ?case by simp
next
  case (Cons asset rest)
  show ?case
    by (simp add: Let_def split_beta Cons.IH split: option.splits)
qed

lemma subscribe_all_foreground:
  "subscribe_all ext symbols c = (tr, r) \<Longrightarrow> (x, a) \<in> set tr \<Longrightarrow> x = Foreground"
  using subscribe_all_trace [of ext symbols c] by auto

lemma init_trace_foreground: "fst ` set (fst (init ext kf db symbols h p)) \<subseteq> {Foreground}"
  by (auto simp: init_def Let_def start_thread_def split: sum.splits prod.splits
        dest: subscribe_all_foreground)

lemma init_blocks_on_run:
  "\<not> run_returns ext \<Longrightarrow> init ext kf db symbols h p \<noteq> (tr, Returned self)"
  by (auto simp: init_def Let_def split: sum.splits prod.splits)

text \<open>
  Claim C2 says that the constructor starts the feed loop on a background thread and
  returns without running it. With the default arguments and a feed loop that runs
  until stopped, the code runs the loop in the foreground: \<^verbatim>\<open>self.client.run()\<close> is
  called while the arguments of \<^verbatim>\<open>Thread\<close> are evaluated, no thread is started and
  the constructor does not return.
\<close>

theorem run_loop_blocks_constructor:
  "(init feed_live ''/server/credentials/admin.key'' ''/server/database/admin.db''
      [''BTC/USD''] ''127.0.0.1'' 65535 :: (exec_context \<times> action) list \<times> int liveDataServer outcome) =
     ([(Foreground, QueryCredentials ''/server/database/admin/admin.db''),
       (Foreground, NewCryptoStream ''key'' ''secret''),
       (Foreground, SubscribeQuotes ''BTC/USD''),
       (Foreground, ClientRun)], NeverReturns)"
  by (simp add: init_def feed_live_def queryCredentials_def Let_def upper_def upper_char_def)

subsection \<open>Failures of the transport\<close>

text \<open>
  Claim C3 says that a failing connect or upload is handed back to the caller as a
  returned error value and is not raised. For a refused connection and for a
  connection reset during the upload, the handler raises \<^verbatim>\<open>NameError\<close> instead.
\<close>

theorem transport_failure_raises_name_error:
  "snd (snd (streamDataHandler id peer_refusing server0 btc_quote)) = Raised (NameError ''exception'') \<and>
   snd (snd (streamDataHandler id peer_resetting server0 btc_quote)) = Raised (NameError ''exception'')"
  by (simp add: streamDataHandler_def send_packet_def peer_refusing_def peer_resetting_def
        except_clause_raises Let_def)

text \<open>
  Claim C4. On every path through the handler (upload done, connect failed, upload
  failed) \<^verbatim>\<open>close()\<close> is called on the socket exactly once and the socket is
  closed when the handler is left.
\<close>

theorem socket_closed_exactly_once:
  "sock (fst (snd (streamDataHandler ts env self d))) =
     \<lparr>connected = False, closed = True, closes = 1\<rparr>"
  by (simp add: streamDataHandler_def send_packet_def Let_def with_exit_def finally_clause_def
        socket_exit_def socket_close_def socket_new_def split: option.splits)

theorem socket_closed_exactly_once_witness:
  "sock (fst (snd (streamDataHandler id peer_up server0 btc_quote))) = \<lparr>connected = False, closed = True, closes = 1\<rparr> \<and>
   sock (fst (snd (streamDataHandler id peer_refusing server0 btc_quote))) = \<lparr>connected = False, closed = True, closes = 1\<rparr> \<and>
   sock (fst (snd (streamDataHandler id peer_resetting server0 btc_quote))) = \<lparr>connected = False, closed = True, closes = 1\<rparr>"
  using socket_closed_exactly_once [of id peer_up server0 btc_quote]
    socket_closed_exactly_once [of id peer_refusing server0 btc_quote]
    socket_closed_exactly_once [of id peer_resetting server0 btc_quote]
  by simp

text \<open>
  Claim C5 says that a failed connect makes the send report the connect error as a
  value and leaves the store as it was. At a refused connection the store is indeed
  untouched by the send and nothing is uploaded, but the send raises
  \<^verbatim>\<open>NameError\<close> where the claim has it return the connect error.
\<close>

theorem connect_failure_raises_not_returns:
  "send_packet peer_refusing (rewrite_packet id server0 btc_quote) =
     (rewrite_packet id server0 btc_quote,
      \<lparr>sock = \<lparr>connected = False, closed = True, closes = 1\<rparr>, sendall_calls = [], sleeps = []\<rparr>,
      Raised (NameError ''exception''))"
  by (simp add: send_packet_def peer_refusing_def except_clause_raises Let_def with_exit_def
        socket_exit_def socket_close_def socket_new_def)

subsection \<open>Pacing\<close>

text \<open>
  Claim C6, as amended. The claim has the one-second wait on the success path only.
  \<^verbatim>\<open>sleep(1)\<close> stands in the \<^verbatim>\<open>finally\<close> clause of the upload: it is performed
  once whenever the connect step succeeded, whether the upload then succeeds or fails,
  and not at all when the connect step fails.
\<close>

theorem pacing_follows_connect:
  "sleeps (fst (snd (send_packet env self))) = (if connect_raises env = None then [1] else [])"
  by (simp add: send_packet_def Let_def with_exit_def finally_clause_def split: option.splits)

theorem pacing_follows_connect_witness:
  "sleeps (fst (snd (send_packet peer_up server0))) = [1] \<and>
   sleeps (fst (snd (send_packet peer_refusing server0))) = []"
  using pacing_follows_connect [of peer_up server0] pacing_follows_connect [of peer_refusing server0]
  by (simp add: peer_up_def peer_refusing_def)

text \<open>
  Claim C6 as stated fails: an upload that fails (the handler does not complete
  normally) still performs the wait.
\<close>

theorem failed_upload_still_sleeps:
  "snd (snd (streamDataHandler id peer_resetting server0 btc_quote)) \<noteq> Returned PyNone \<and>
   sleeps (fst (snd (streamDataHandler id peer_resetting server0 btc_quote))) = [1]"
  by (simp add: streamDataHandler_def send_packet_def peer_resetting_def except_clause_raises
        Let_def with_exit_def finally_clause_def)

subsection \<open>The document on the wire\<close>

lemma rewrite_packet_single:
  "data self = [] \<or> (\<exists>v. data self = [(''Live Market Data'', v)]) \<Longrightarrow>
   data (rewrite_packet ts self d) = [(''Live Market Data'', JObj [(symbol d, quote_entry ts d)])]"
  by (auto simp: rewrite_packet_def)

lemma run_events_single:
  "data self = [] \<or> (\<exists>v. data self = [(''Live Market Data'', v)]) \<Longrightarrow>
   data (run_events ts self evs) = [] \<or> (\<exists>v. data (run_events ts self evs) = [(''Live Market Data'', v)])"
proof (induction evs arbitrary: self)
  case Nil
  then show ?case by simp
next
  case (Cons ev evs)
  obtain env d where ev: "ev = (env, d)" by (cases ev)
  have "data (rewrite_packet ts self d) = [(''Live Market Data'', JObj [(symbol d, quote_entry ts d)])]"
    using Cons.prems by (rule rewrite_packet_single)
  then show ?case
    using Cons.IH [of "rewrite_packet ts self d"] by (simp add: ev handler_self)
qed

lemma sendall_calls_handler:
  "sendall_calls (fst (snd (streamDataHandler ts env self d))) =
     (if connect_raises env = None then [data (rewrite_packet ts self d)] else [])"
  by (simp add: streamDataHandler_def send_packet_def Let_def with_exit_def finally_clause_def
        split: option.splits)

text \<open>
  Claim C7. Starting from the empty dictionary the constructor leaves and after any
  sequence of earlier events, the document handed to the upload for an event has the
  single top-level key \<^verbatim>\<open>"Live Market Data"\<close>, holding exactly one entry: the event's
  symbol, mapped to the fields name, time, ask price, ask size, bid price and bid size
  of that event. (When the connect step fails no document is handed over.)
\<close>

theorem document_holds_single_entry:
  "sendall_calls (fst (snd (streamDataHandler ts env (run_events ts (self\<lparr>data := []\<rparr>) evs) d))) =
     (if connect_raises env = None
      then [[(''Live Market Data'',
              JObj [(symbol d,
                     JObj [(''name'', JStr (symbol d)),
                           (''time'', JNum (ts (timestamp d))),
                           (''ask price'', JNum (ask_price d)),
                           (''ask size'', JNum (ask_size d)),
                           (''bid price'', JNum (bid_price d)),
                           (''bid size'', JNum (bid_size d))])])]]
      else [])"
proof -
  have "data (run_events ts (self\<lparr>data := []\<rparr>) evs) = [] \<or>
        (\<exists>v. data (run_events ts (self\<lparr>data := []\<rparr>) evs) = [(''Live Market Data'', v)])"
    by (rule run_events_single) simp
  then have "data (rewrite_packet ts (run_events ts (self\<lparr>data := []\<rparr>) evs) d) =
        [(''Live Market Data'', JObj [(symbol d, quote_entry ts d)])]"
    by (rule rewrite_packet_single)
  then show ?thesis
    by (simp add: sendall_calls_handler quote_entry_def)
qed

theorem document_holds_single_entry_witness:
  "sendall_calls (fst (snd (streamDataHandler id peer_up
       (run_events id (server0\<lparr>data := []\<rparr>) [(peer_up, btc_quote)]) eth_quote))) =
     [[(''Live Market Data'',
        JObj [(''ETH/USD'',
               JObj [(''name'', JStr ''ETH/USD''), (''time'', JNum 1700000001),
                     (''ask price'', JNum 2001), (''ask size'', JNum 3),
                     (''bid price'', JNum 2000), (''bid size'', JNum 4)])])]]"
  using document_holds_single_entry [of id peer_up server0 "[(peer_up, btc_quote)]" eth_quote]
  by (simp add: peer_up_def eth_quote_def)

subsection \<open>Subscription\<close>

text \<open>
  Claim C9, as amended. The claim has subscription fail with a configuration error on
  an empty collection or a malformed identifier. The constructor checks neither: it
  hands every element, upper-cased and in order, to the feed client. With no symbols it
  makes no call and succeeds; otherwise it fails exactly when the feed client itself
  refuses one of the names, with the client's error for the first such name, and
  succeeds with all names subscribed when the client refuses none.
\<close>

theorem subscription_never_validates:
  "subscribe_all ext [] c = ([], Inr c) \<and>
   snd (subscribe_all ext symbols c) =
     (case find (\<lambda>s. upper s \<in> rejected_symbols ext) symbols of
        None \<Rightarrow> Inr (c\<lparr>quote_subscriptions := quote_subscriptions c @ map upper symbols\<rparr>)
      | Some s \<Rightarrow> Inl (LibraryError (upper s)))"
  by (simp add: subscribe_all_result)

theorem subscription_never_validates_witness:
  "subscribe_all feed_live [] new_client = ([], Inr new_client) \<and>
   snd (subscribe_all feed_live [''eth/usd'', ''doge''] new_client) =
     Inr (new_client\<lparr>quote_subscriptions := [''ETH/USD'', ''DOGE'']\<rparr>)"
  using subscription_never_validates [of feed_live new_client "[''eth/usd'', ''doge'']"]
  by (simp add: feed_live_def new_client_def upper_def upper_char_def)

text \<open>
  Claim C9 as stated fails: the empty collection and an identifier with no slash are
  both accepted.
\<close>

theorem empty_and_malformed_symbols_accepted:
  "snd (subscribe_all feed_live [] new_client) = Inr new_client \<and>
   snd (subscribe_all feed_live [''btcusd''] new_client) =
     Inr (new_client\<lparr>quote_subscriptions := [''BTCUSD'']\<rparr>)"
  by (simp add: feed_live_def new_client_def upper_def upper_char_def Let_def)

subsection \<open>Credentials\<close>

lemma queried_paths_Nil: "queried_paths [] = []"
  by (simp add: queried_paths_def)

lemma queried_paths_Cons:
  "queried_paths ((x, a) # tr) =
     (case a of QueryCredentials p \<Rightarrow> [p] | _ \<Rightarrow> []) @ queried_paths tr"
  by (simp add: queried_paths_def)

lemma queried_paths_append: "queried_paths (xs @ ys) = queried_paths xs @ queried_paths ys"
  by (simp add: queried_paths_def)

lemma queried_paths_subscribe_all: "queried_paths (fst (subscribe_all ext symbols c)) = []"
  by (induction symbols arbitrary: c) (simp_all add: queried_paths_def Let_def split_beta)

lemma queried_paths_of_subscribe:
  "subscribe_all ext symbols c = (tr, r) \<Longrightarrow> queried_paths tr = []"
  using queried_paths_subscribe_all [of ext symbols c] by simp

lemma init_trace_args: "fst (init ext kf db symbols h p) = fst (init ext kf' db' symbols h p)"
  by (simp add: init_def Let_def split: sum.splits prod.splits)

text \<open>
  Claim C10. Whatever keyfile and database are passed, the constructor queries the
  credentials once, at the path \<^verbatim>\<open>/server/database/admin/admin.db\<close>, and everything
  it does is the same for any other keyfile and database.
\<close>

theorem credentials_path_is_fixed:
  "queried_paths (fst (init ext keyfile' database' symbols host' port')) =
     [''/server/database/admin/admin.db''] \<and>
   fst (init ext keyfile' database' symbols host' port') =
     fst (init ext keyfile'' database'' symbols host' port')"
  using init_trace_args [of ext keyfile' database' symbols host' port' keyfile'' database'']
  by (auto simp: init_def Let_def queried_paths_append queried_paths_Cons queried_paths_Nil
        start_thread_def split: sum.splits prod.splits dest: queried_paths_of_subscribe)

theorem credentials_path_is_fixed_witness:
  "queried_paths (fst (init feed_live ''/tmp/other.key'' ''/tmp/other.db'' [''BTC/USD'']
       ''127.0.0.1'' 65535 :: (exec_context \<times> action) list \<times> int liveDataServer outcome)) =
     [''/server/database/admin/admin.db''] \<and>
   fst (init feed_live ''/tmp/other.key'' ''/tmp/other.db'' [''BTC/USD'']
       ''127.0.0.1'' 65535 :: (exec_context \<times> action) list \<times> int liveDataServer outcome) =
     fst (init feed_live ''/server/credentials/admin.key'' ''/server/database/admin.db''
       [''BTC/USD''] ''127.0.0.1'' 65535 ::
       (exec_context \<times> action) list \<times> int liveDataServer outcome)"
  by (rule credentials_path_is_fixed)

end
